theory Spec2Isabelle
  imports Complex_Main "HOL-Library.AList" "HOL-Library.Sublist"
begin

section \<open>Python values held by the cells of a raw row\<close>

text \<open>
  The inventory plugin \<^verbatim>\<open>nornir_table_inventory/plugins/inventory/table.py\<close> builds a
  nornir inventory from rows of loosely typed cells (\<^verbatim>\<open>Dict[str, Any]\<close>). A cell read
  from a CSV file is a \<^verbatim>\<open>str\<close> (or \<^verbatim>\<open>None\<close> for a short line); a cell read from a
  spreadsheet is a \<^verbatim>\<open>str\<close>, an \<^verbatim>\<open>int\<close>, a \<^verbatim>\<open>bool\<close> or a \<^verbatim>\<open>float\<close>, the blank cell being
  the float NaN.

  A finite float is modelled by the rational number it denotes (negative zero is
  identified with zero), and a numpy scalar of a spreadsheet by the Python value it
  denotes. A \<^typ>\<open>char\<close> stands for a code point below 256.
\<close>

datatype pyfloat = NaN | Inf bool | Fin rat

datatype pyval = VNone | VBool bool | VInt int | VFloat pyfloat | VStr string

datatype error =
    KeyError string
  | ValueError
  | TypeError
  | OverflowError
  | AttributeError
  | Exception string

definition bind_err :: "error + 'a \<Rightarrow> ('a \<Rightarrow> error + 'b) \<Rightarrow> error + 'b" where
  "bind_err m f = (case m of Inl e \<Rightarrow> Inl e | Inr x \<Rightarrow> f x)"

subsection \<open>Truth value, equality\<close>

text \<open>\<^verbatim>\<open>bool(x)\<close>, the test of \<^verbatim>\<open>if x:\<close>. NaN and the infinities are true.\<close>

fun truthy :: "pyval \<Rightarrow> bool" where
  "truthy VNone = False"
| "truthy (VBool b) = b"
| "truthy (VInt i) = (i \<noteq> 0)"
| "truthy (VFloat (Fin r)) = (r \<noteq> 0)"
| "truthy (VFloat _) = True"
| "truthy (VStr s) = (s \<noteq> [])"

text \<open>The numeric value of a \<^verbatim>\<open>bool\<close>, an \<^verbatim>\<open>int\<close> or a finite \<^verbatim>\<open>float\<close>.\<close>

fun py_num :: "pyval \<Rightarrow> rat option" where
  "py_num (VBool b) = Some (if b then 1 else 0)"
| "py_num (VInt i) = Some (of_int i)"
| "py_num (VFloat (Fin r)) = Some r"
| "py_num _ = None"

text \<open>
  \<^verbatim>\<open>x == y\<close>: numbers compare by value across \<^verbatim>\<open>bool\<close>, \<^verbatim>\<open>int\<close> and \<^verbatim>\<open>float\<close>; NaN
  equals nothing; a string equals only the same string.
\<close>

fun py_eq :: "pyval \<Rightarrow> pyval \<Rightarrow> bool" where
  "py_eq VNone y = (y = VNone)"
| "py_eq (VStr s) y = (y = VStr s)"
| "py_eq (VFloat NaN) y = False"
| "py_eq (VFloat (Inf s)) y = (y = VFloat (Inf s))"
| "py_eq x y = (case py_num y of None \<Rightarrow> False | Some r \<Rightarrow> py_num x = Some r)"

subsection \<open>\<^verbatim>\<open>str(x)\<close> and \<^verbatim>\<open>str.lower\<close>\<close>

definition digit_char :: "nat \<Rightarrow> char" where
  "digit_char d = char_of (48 + d)"

fun nat_str :: "nat \<Rightarrow> string" where
  "nat_str n = (if n < 10 then [digit_char n] else nat_str (n div 10) @ [digit_char (n mod 10)])"

declare nat_str.simps [simp del]

definition int_str :: "int \<Rightarrow> string" where
  "int_str i = (if i < 0 then CHR ''-'' # nat_str (nat (- i)) else nat_str (nat i))"

text \<open>
  Two things depend on the interpreter and not on the program; they are parameters of
  the model, passed to every function that calls \<^verbatim>\<open>str\<close> or \<^verbatim>\<open>int\<close>: the decimal text
  of a float (\<^verbatim>\<open>float.__repr__\<close>), and \<^verbatim>\<open>sys.int_max_str_digits\<close>, the largest number of
  digits that \<^verbatim>\<open>int\<close> reads from a string (4300 by default from Python 3.11 on; 0 for no
  limit, as in earlier versions).
\<close>

record interp =
  float_repr :: "pyfloat \<Rightarrow> string"
  int_max_str_digits :: nat

text \<open>\<^verbatim>\<open>str(x)\<close>.\<close>

fun py_str :: "interp \<Rightarrow> pyval \<Rightarrow> string" where
  "py_str ip VNone = ''None''"
| "py_str ip (VBool b) = (if b then ''True'' else ''False'')"
| "py_str ip (VInt i) = int_str i"
| "py_str ip (VFloat f) = float_repr ip f"
| "py_str ip (VStr s) = s"

definition lower_char :: "char \<Rightarrow> char" where
  "lower_char c =
     (let n = (of_char c :: nat)
      in if (65 \<le> n \<and> n \<le> 90) \<or> (192 \<le> n \<and> n \<le> 222 \<and> n \<noteq> 215)
         then char_of (n + 32) else c)"

definition lower :: "string \<Rightarrow> string" where
  "lower s = map lower_char s"

subsection \<open>\<^verbatim>\<open>int(x)\<close>\<close>

text \<open>White space in the sense of \<^verbatim>\<open>str.isspace\<close>.\<close>

definition is_space :: "char \<Rightarrow> bool" where
  "is_space c = ((of_char c :: nat) \<in> {9, 10, 11, 12, 13, 28, 29, 30, 31, 32, 133, 160})"

text \<open>
  The white space that \<^verbatim>\<open>int\<close> strips from both ends of a string: the ASCII white space
  of C (tab to carriage return, and the space) and, of the code points from 128 on, the
  two that are white space. The separators 28 to 31 are not stripped.
\<close>

definition is_int_space :: "char \<Rightarrow> bool" where
  "is_int_space c = ((of_char c :: nat) \<in> {9, 10, 11, 12, 13, 32, 133, 160})"

definition strip :: "string \<Rightarrow> string" where
  "strip s = rev (dropWhile is_int_space (rev (dropWhile is_int_space s)))"

definition digit_val :: "char \<Rightarrow> nat option" where
  "digit_val c =
     (let n = (of_char c :: nat) in if 48 \<le> n \<and> n \<le> 57 then Some (n - 48) else None)"

text \<open>
  Decimal digits, single underscores allowed between two digits. \<open>prev\<close> tells
  whether the character just read was a digit.
\<close>

fun parse_digits :: "string \<Rightarrow> nat \<Rightarrow> bool \<Rightarrow> nat option" where
  "parse_digits [] acc prev = (if prev then Some acc else None)"
| "parse_digits (c # cs) acc prev =
     (if c = CHR ''_'' then (if prev then parse_digits cs acc False else None)
      else (case digit_val c of
              None \<Rightarrow> None
            | Some d \<Rightarrow> parse_digits cs (10 * acc + d) True))"

definition parse_int :: "string \<Rightarrow> int option" where
  "parse_int s =
     (case strip s of
        [] \<Rightarrow> None
      | c # cs \<Rightarrow>
          if c = CHR ''-'' then map_option (\<lambda>n. - int n) (parse_digits cs 0 False)
          else if c = CHR ''+'' then map_option int (parse_digits cs 0 False)
          else map_option int (parse_digits (c # cs) 0 False))"

text \<open>
  The limit on the digits of a string: \<^verbatim>\<open>int\<close> counts the digit characters (underscores
  apart, leading zeros included) and raises \<^verbatim>\<open>ValueError\<close> when there are more than 640
  of them and more than a non-zero \<^verbatim>\<open>sys.int_max_str_digits\<close>.
\<close>

definition too_many_digits :: "interp \<Rightarrow> string \<Rightarrow> bool" where
  "too_many_digits ip s =
     (let digits = length (filter (\<lambda>c. digit_val c \<noteq> None) s)
      in 640 < digits \<and> 0 < int_max_str_digits ip \<and> int_max_str_digits ip < digits)"

text \<open>
  \<^verbatim>\<open>int(x)\<close>: \<^verbatim>\<open>TypeError\<close> for \<^verbatim>\<open>None\<close>, \<^verbatim>\<open>ValueError\<close> for NaN and for a string that
  is not a decimal integer or has too many digits, \<^verbatim>\<open>OverflowError\<close> for an infinity; a
  finite float is truncated towards zero.
\<close>

fun py_int :: "interp \<Rightarrow> pyval \<Rightarrow> error + int" where
  "py_int ip VNone = Inl TypeError"
| "py_int ip (VBool b) = Inr (if b then 1 else 0)"
| "py_int ip (VInt i) = Inr i"
| "py_int ip (VFloat NaN) = Inl ValueError"
| "py_int ip (VFloat (Inf s)) = Inl OverflowError"
| "py_int ip (VFloat (Fin r)) = Inr (if r < 0 then - \<lfloor>- r\<rfloor> else \<lfloor>r\<rfloor>)"
| "py_int ip (VStr s) =
     (case parse_int s of
        None \<Rightarrow> Inl ValueError
      | Some i \<Rightarrow> if too_many_digits ip s then Inl ValueError else Inr i)"

subsection \<open>\<^verbatim>\<open>str.split\<close>, \<^verbatim>\<open>in\<close> and \<^verbatim>\<open>str.replace\<close> on strings\<close>

fun str_split :: "char \<Rightarrow> string \<Rightarrow> string list" where
  "str_split sep [] = [[]]"
| "str_split sep (c # cs) =
     (if c = sep then [] # str_split sep cs
      else (case str_split sep cs of
              [] \<Rightarrow> [[c]]
            | w # ws \<Rightarrow> (c # w) # ws))"

text \<open>\<^verbatim>\<open>sub in s\<close>: \<open>sub\<close> occurs in \<open>s\<close> as a contiguous run of characters.\<close>

fun str_contains :: "string \<Rightarrow> string \<Rightarrow> bool" where
  "str_contains sub [] = (sub = [])"
| "str_contains sub (c # cs) = (prefix sub (c # cs) \<or> str_contains sub cs)"

text \<open>
  \<^verbatim>\<open>s.replace(old, new)\<close>: every occurrence of \<open>old\<close>, found from the left and not
  overlapping, becomes \<open>new\<close>.
\<close>

function str_replace :: "string \<Rightarrow> string \<Rightarrow> string \<Rightarrow> string" where
  "str_replace old new s =
     (if old = [] then new @ concat (map (\<lambda>c. c # new) s)
      else if s = [] then []
      else if prefix old s then new @ str_replace old new (drop (length old) s)
      else hd s # str_replace old new (tl s))"
  by pat_completeness auto
termination
  by (relation "measure (\<lambda>(old, new, s). length s)") auto

declare str_replace.simps [simp del]

section \<open>The emptiness predicate\<close>

text \<open>
  \<^verbatim>\<open>def _empty(x): return x is None or (isinstance(x, float) and isnan(x)) or x == ""\<close>
\<close>

definition isnan :: "pyval \<Rightarrow> bool" where
  "isnan x = (x = VFloat NaN)"

definition is_float :: "pyval \<Rightarrow> bool" where
  "is_float x = (case x of VFloat f \<Rightarrow> True | _ \<Rightarrow> False)"

definition empty_val :: "pyval \<Rightarrow> bool" where
  "empty_val x = (x = VNone \<or> (is_float x \<and> isnan x) \<or> py_eq x (VStr []))"

section \<open>Rows and dictionaries\<close>

text \<open>
  A \<^verbatim>\<open>dict\<close> is a list of key/value pairs in insertion order, with distinct keys.
  \<^verbatim>\<open>d.items()\<close> is the list itself, \<^verbatim>\<open>d[k] = v\<close> is \<^const>\<open>AList.update\<close> (an
  existing key keeps its place), \<^verbatim>\<open>k in d\<close> and \<^verbatim>\<open>d[k]\<close> go through \<^const>\<open>map_of\<close>.
\<close>

type_synonym row = "(string \<times> pyval) list"

text \<open>\<^verbatim>\<open>d.get(k, default)\<close> and \<^verbatim>\<open>d.get(k)\<close>, whose default is \<^verbatim>\<open>None\<close>.\<close>

definition dict_get_default :: "row \<Rightarrow> string \<Rightarrow> pyval \<Rightarrow> pyval" where
  "dict_get_default d k dflt = (case map_of d k of None \<Rightarrow> dflt | Some v \<Rightarrow> v)"

definition dict_get :: "row \<Rightarrow> string \<Rightarrow> pyval" where
  "dict_get d k = dict_get_default d k VNone"

text \<open>\<^verbatim>\<open>d[k]\<close>, which raises \<^verbatim>\<open>KeyError(k)\<close> for a key that is not there.\<close>

definition dict_getitem :: "row \<Rightarrow> string \<Rightarrow> error + pyval" where
  "dict_getitem d k = (case map_of d k of None \<Rightarrow> Inl (KeyError k) | Some v \<Rightarrow> Inr v)"

section \<open>Free-form data: \<^verbatim>\<open>_get_data\<close>\<close>

definition netmiko_prefix :: string where
  "netmiko_prefix = ''netmiko_''"

definition no_data_fields :: "bool \<Rightarrow> string list" where
  "no_data_fields isDefaults =
     [''name'', ''hostname'', ''port'', ''username'', ''password'', ''platform'']
     @ (if isDefaults then [''groups''] else [])"

text \<open>
  The loop \<^verbatim>\<open>for k, v in data.items()\<close> of \<^verbatim>\<open>_get_data\<close>, with \<^verbatim>\<open>resp_data\<close> as the
  accumulator.
\<close>

fun get_data_loop :: "bool \<Rightarrow> row \<Rightarrow> row \<Rightarrow> row" where
  "get_data_loop isDefaults [] resp_data = resp_data"
| "get_data_loop isDefaults ((k, v) # items) resp_data =
     (if k \<notin> set (no_data_fields isDefaults) \<and> \<not> str_contains netmiko_prefix k
      then get_data_loop isDefaults items
             (AList.update k (if \<not> empty_val v then v else VNone) resp_data)
      else get_data_loop isDefaults items resp_data)"

definition get_data :: "row \<Rightarrow> bool \<Rightarrow> row" where
  "get_data data isDefaults = get_data_loop isDefaults data []"

section \<open>Connection options: \<^verbatim>\<open>_get_connection_options\<close>, \<^verbatim>\<open>_get_host_netmiko_options\<close>\<close>

text \<open>
  The value of an entry of the nested dictionary given to
  \<^verbatim>\<open>_get_connection_options\<close>: a scalar or, under \<^verbatim>\<open>'extras'\<close>, a dictionary.
\<close>

datatype cval = CVal pyval | CDict row

record ConnectionOptions =
  co_hostname :: cval
  co_port :: cval
  co_username :: cval
  co_password :: cval
  co_platform :: cval
  extras :: cval

definition c_get :: "(string \<times> cval) list \<Rightarrow> string \<Rightarrow> cval" where
  "c_get c k = (case map_of c k of None \<Rightarrow> CVal VNone | Some v \<Rightarrow> v)"

fun get_connection_options_loop ::
  "(string \<times> (string \<times> cval) list) list \<Rightarrow> (string \<times> ConnectionOptions) list
     \<Rightarrow> (string \<times> ConnectionOptions) list" where
  "get_connection_options_loop [] cp = cp"
| "get_connection_options_loop ((cn, c) # items) cp =
     get_connection_options_loop items
       (AList.update cn
          \<lparr>co_hostname = c_get c ''hostname'', co_port = c_get c ''port'',
           co_username = c_get c ''username'', co_password = c_get c ''password'',
           co_platform = c_get c ''platform'', extras = c_get c ''extras''\<rparr> cp)"

definition get_connection_options ::
  "(string \<times> (string \<times> cval) list) list \<Rightarrow> (string \<times> ConnectionOptions) list" where
  "get_connection_options data = get_connection_options_loop data []"

definition int_keys :: "string list" where
  "int_keys = [''timeout'', ''conn_timeout'', ''auth_timeout'', ''banner_timeout'',
               ''blocking_timeout'', ''session_timeout'']"

definition bool_keys :: "string list" where
  "bool_keys = [''fast_cli'']"

text \<open>
  The loop \<^verbatim>\<open>for k, v in data.items()\<close> of \<^verbatim>\<open>_get_host_netmiko_options\<close>, with
  \<^verbatim>\<open>extra_opts\<close> as the accumulator; \<^verbatim>\<open>int(v)\<close> may raise.
\<close>

fun netmiko_loop :: "interp \<Rightarrow> row \<Rightarrow> row \<Rightarrow> error + row" where
  "netmiko_loop ip [] extra_opts = Inr extra_opts"
| "netmiko_loop ip ((k, v) # items) extra_opts =
     (if str_contains netmiko_prefix k then
        (let new_k = str_replace netmiko_prefix [] k in
         if new_k \<in> set int_keys then
           bind_err (py_int ip v)
             (\<lambda>n. netmiko_loop ip items (AList.update new_k (VInt n) extra_opts))
         else if new_k \<in> set bool_keys then
           (if lower (py_str ip v) \<in> set [''0'', ''false'', ''none'']
            then netmiko_loop ip items (AList.update new_k (VBool False) extra_opts)
            else netmiko_loop ip items (AList.update new_k (VBool True) extra_opts))
         else
           (if empty_val v
            then netmiko_loop ip items (AList.update new_k VNone extra_opts)
            else netmiko_loop ip items (AList.update new_k v extra_opts)))
      else netmiko_loop ip items extra_opts)"

definition get_host_netmiko_options ::
  "interp \<Rightarrow> row \<Rightarrow> error + (string \<times> ConnectionOptions) list" where
  "get_host_netmiko_options ip data =
     bind_err (netmiko_loop ip data [])
       (\<lambda>extra_opts.
          if extra_opts \<noteq> []
          then Inr (get_connection_options [(''netmiko'', [(''extras'', CDict extra_opts)])])
          else Inr [])"

section \<open>Records of the inventory\<close>

text \<open>
  The classes \<^verbatim>\<open>Defaults\<close>, \<^verbatim>\<open>Host\<close> and \<^verbatim>\<open>Group\<close> come from \<^verbatim>\<open>nornir.core.inventory\<close>.
  Their constructors store the arguments as given, so a field holds whatever
  Python value the builder passes.
\<close>

record Defaults =
  hostname :: pyval
  port :: pyval
  username :: pyval
  password :: pyval
  platform :: pyval
  data :: row
  connection_options :: "(string \<times> ConnectionOptions) list"

datatype element_type = Host | Group

text \<open>
  A host or a group. Before resolution \<open>groups\<close> lists group names; after it each
  entry stands for the \<^verbatim>\<open>Group\<close> object held under that key of the groups mapping.
\<close>

record InventoryElement = Defaults +
  element_type :: element_type
  name :: pyval
  groups :: "string list"
  defaults :: Defaults

text \<open>\<^verbatim>\<open>Defaults()\<close>: every attribute \<^verbatim>\<open>None\<close>, no data, no connection options.\<close>

definition Defaults_init :: Defaults where
  "Defaults_init =
     \<lparr>hostname = VNone, port = VNone, username = VNone, password = VNone,
      platform = VNone, data = [], connection_options = []\<rparr>"

section \<open>The record builders\<close>

text \<open>
  Both builders coerce each identity field with a statement of the same shape:
  \<^verbatim>\<open>if hostname: hostname = str(hostname) if not _empty(hostname) else None\<close> and
  \<^verbatim>\<open>if port: port = int(port) if not _empty(port) else None\<close>. A false value (\<^verbatim>\<open>None\<close>,
  \<^verbatim>\<open>""\<close>, \<^verbatim>\<open>0\<close>, \<^verbatim>\<open>False\<close>) skips the statement and stays as it is.
\<close>

definition coerce_str :: "interp \<Rightarrow> pyval \<Rightarrow> pyval" where
  "coerce_str ip x =
     (if truthy x then (if \<not> empty_val x then VStr (py_str ip x) else VNone) else x)"

definition coerce_int :: "interp \<Rightarrow> pyval \<Rightarrow> error + pyval" where
  "coerce_int ip x =
     (if truthy x
      then (if \<not> empty_val x then bind_err (py_int ip x) (\<lambda>n. Inr (VInt n)) else Inr VNone)
      else Inr x)"

text \<open>
  \<^verbatim>\<open>if groups: groups = [x for x in groups.split(",")]\<close>: a true value that is not a
  string has no \<^verbatim>\<open>split\<close>; a false value skips the statement (\<open>None\<close> here) and is
  passed to the constructor as it is.
\<close>

definition split_groups :: "pyval \<Rightarrow> error + string list option" where
  "split_groups x =
     (if truthy x
      then (case x of VStr s \<Rightarrow> Inr (Some (str_split CHR '','' s)) | _ \<Rightarrow> Inl AttributeError)
      else Inr None)"

text \<open>
  Modelled from the spec: the constructor of \<^verbatim>\<open>Host\<close> and \<^verbatim>\<open>Group\<close> belongs to the
  consumer (nornir), not to this repository; it stores \<^verbatim>\<open>groups or ParentGroups()\<close>,
  so a false \<^verbatim>\<open>groups\<close> value (absent, \<^verbatim>\<open>""\<close>) gives the empty list and a list of
  names is kept.
\<close>

definition stored_groups :: "string list option \<Rightarrow> string list" where
  "stored_groups g = (case g of None \<Rightarrow> [] | Some names \<Rightarrow> names)"

text \<open>
  \<^verbatim>\<open>_get_inventory_element(typ, data, defaults)\<close>, its statements in the order of the
  source: \<^verbatim>\<open>int(port)\<close> may raise, then \<^verbatim>\<open>groups.split\<close>, then the connection options.
  \<^verbatim>\<open>name\<close> is only turned into a string: \<^verbatim>\<open>if name: name = str(name)\<close>.
\<close>

definition get_inventory_element ::
  "interp \<Rightarrow> element_type \<Rightarrow> row \<Rightarrow> Defaults \<Rightarrow> error + InventoryElement" where
  "get_inventory_element ip ty rw dflts =
     (let name = dict_get rw ''name'';
          hostname = dict_get rw ''hostname'';
          port = dict_get_default rw ''port'' (VInt 22);
          username = dict_get rw ''username'';
          password = dict_get rw ''password'';
          platform = dict_get rw ''platform'';
          groups = dict_get rw ''groups'';
          name = (if truthy name then VStr (py_str ip name) else name);
          hostname = coerce_str ip hostname
      in bind_err (coerce_int ip port)
           (\<lambda>port.
              let username = coerce_str ip username;
                  password = coerce_str ip password;
                  platform = coerce_str ip platform
              in bind_err (split_groups groups)
                   (\<lambda>groups.
                      let data = get_data rw False
                      in bind_err (get_host_netmiko_options ip rw)
                           (\<lambda>co.
                              Inr \<lparr>hostname = hostname, port = port, username = username,
                                   password = password, platform = platform, data = data,
                                   connection_options = co, element_type = ty, name = name,
                                   groups = stored_groups groups, defaults = dflts\<rparr>))))"

text \<open>
  \<^verbatim>\<open>_get_defaults(data)\<close>. The source coerces the identity fields into local
  variables (\<^verbatim>\<open>int(port)\<close> may raise) and then builds \<^verbatim>\<open>Defaults\<close> from
  \<^verbatim>\<open>data.get(...)\<close> again; \<^verbatim>\<open>_get_data\<close> is called with its default
  \<^verbatim>\<open>isDefaults=False\<close>.
\<close>

definition get_defaults :: "interp \<Rightarrow> row \<Rightarrow> error + Defaults" where
  "get_defaults ip rw =
     (let name = dict_get rw ''name'';
          hostname = dict_get rw ''hostname'';
          port = dict_get rw ''port'';
          username = dict_get rw ''username'';
          password = dict_get rw ''password'';
          platform = dict_get rw ''platform'';
          name = (if truthy name then VStr (py_str ip name) else name);
          hostname = coerce_str ip hostname
      in bind_err (coerce_int ip port)
           (\<lambda>port.
              let username = coerce_str ip username;
                  password = coerce_str ip password;
                  platform = coerce_str ip platform;
                  data = get_data rw False
              in bind_err (get_host_netmiko_options ip rw)
                   (\<lambda>co.
                      Inr \<lparr>hostname = dict_get rw ''hostname'', port = dict_get rw ''port'',
                           username = dict_get rw ''username'',
                           password = dict_get rw ''password'',
                           platform = dict_get rw ''platform'', data = data,
                           connection_options = co\<rparr>)))"

section \<open>The assembler: \<^verbatim>\<open>FlatDataInventory.load\<close>\<close>

text \<open>
  \<^verbatim>\<open>Groups\<close> and \<^verbatim>\<open>Hosts\<close> are dictionaries keyed by the raw \<^verbatim>\<open>row['name']\<close> value, so
  keys are compared with \<^verbatim>\<open>==\<close>. Storing under an equal key replaces the value and
  keeps the key and its place.
\<close>

type_synonym elements = "(pyval \<times> InventoryElement) list"

fun py_setitem :: "pyval \<Rightarrow> 'a \<Rightarrow> (pyval \<times> 'a) list \<Rightarrow> (pyval \<times> 'a) list" where
  "py_setitem k v [] = [(k, v)]"
| "py_setitem k v ((k', v') # ps) =
     (if py_eq k' k then (k', v) # ps else (k', v') # py_setitem k v ps)"

fun py_lookup :: "(pyval \<times> 'a) list \<Rightarrow> pyval \<Rightarrow> 'a option" where
  "py_lookup [] k = None"
| "py_lookup ((k', v) # ps) k = (if py_eq k' k then Some v else py_lookup ps k)"

record Inventory =
  inv_hosts :: elements
  inv_groups :: elements
  inv_defaults :: Defaults

text \<open>
  \<^verbatim>\<open>defaults_data\<close>: the CSV reader passes one row (a \<^verbatim>\<open>dict\<close>), the spreadsheet reader
  the list of records of the sheet, which has no \<^verbatim>\<open>get\<close>.
\<close>

datatype defaults_data = DefaultsRow row | DefaultsRows "row list"

definition load_defaults :: "interp \<Rightarrow> defaults_data \<Rightarrow> error + Defaults" where
  "load_defaults ip dd =
     (case dd of
        DefaultsRow rw \<Rightarrow> if rw \<noteq> [] then get_defaults ip rw else Inr Defaults_init
      | DefaultsRows rws \<Rightarrow> if rws \<noteq> [] then Inl AttributeError else Inr Defaults_init)"

text \<open>
  The loops over \<^verbatim>\<open>self.groups_data\<close> and \<^verbatim>\<open>self.hosts_data\<close>. Their bodies differ
  only in the class built; both raise \<^verbatim>\<open>Exception('HOST name must not be empty')\<close>.
  \<^verbatim>\<open>row['name']\<close> raises \<^verbatim>\<open>KeyError('name')\<close> when the key is missing. The call of
  \<^verbatim>\<open>logger.error\<close> before the raise is left out.
\<close>

fun insert_rows ::
  "interp \<Rightarrow> element_type \<Rightarrow> Defaults \<Rightarrow> row list \<Rightarrow> elements \<Rightarrow> error + elements" where
  "insert_rows ip ty dflts [] m = Inr m"
| "insert_rows ip ty dflts (rw # rest) m =
     bind_err (dict_getitem rw ''name'')
       (\<lambda>nm. if \<not> empty_val nm
              then bind_err (get_inventory_element ip ty rw dflts)
                     (\<lambda>e. insert_rows ip ty dflts rest (py_setitem nm e m))
              else Inl (Exception ''HOST name must not be empty''))"

text \<open>\<^verbatim>\<open>[groups[g] for g in names]\<close>: the first missing name raises \<^verbatim>\<open>KeyError\<close>.\<close>

fun lookup_groups :: "elements \<Rightarrow> string list \<Rightarrow> error + string list" where
  "lookup_groups grps [] = Inr []"
| "lookup_groups grps (g # gs) =
     (case py_lookup grps (VStr g) of
        None \<Rightarrow> Inl (KeyError g)
      | Some _ \<Rightarrow> bind_err (lookup_groups grps gs) (\<lambda>refs. Inr (g # refs)))"

text \<open>
  \<^verbatim>\<open>for e in elems.values(): e.groups = ParentGroups([groups[g] for g in e.groups])\<close>
\<close>

fun resolve_loop :: "elements \<Rightarrow> elements \<Rightarrow> error + elements" where
  "resolve_loop grps [] = Inr []"
| "resolve_loop grps ((k, e) # rest) =
     bind_err (lookup_groups grps (groups e))
       (\<lambda>refs. bind_err (resolve_loop grps rest)
                  (\<lambda>rest'. Inr ((k, e\<lparr>groups := refs\<rparr>) # rest')))"

definition load_groups ::
  "interp \<Rightarrow> Defaults \<Rightarrow> row list \<Rightarrow> error + elements" where
  "load_groups ip dflts groups_data =
     (if groups_data \<noteq> []
      then bind_err (insert_rows ip Group dflts groups_data [])
             (\<lambda>grps. resolve_loop grps grps)
      else Inr [])"

definition load ::
  "interp \<Rightarrow> row list \<Rightarrow> row list \<Rightarrow> defaults_data \<Rightarrow> error + Inventory" where
  "load ip hosts_data groups_data dd =
     bind_err (load_defaults ip dd)
       (\<lambda>dflts. bind_err (load_groups ip dflts groups_data)
          (\<lambda>grps. bind_err (insert_rows ip Host dflts hosts_data [])
             (\<lambda>hsts. bind_err (resolve_loop grps hsts)
                (\<lambda>hsts'. Inr \<lparr>inv_hosts = hsts', inv_groups = grps,
                               inv_defaults = dflts\<rparr>))))"

section \<open>Auxiliary notions for the statements\<close>

text \<open>
  The errors that \<^verbatim>\<open>int(x)\<close> raises: the value cannot be coerced to an integer.
\<close>

definition is_conversion_error :: "error \<Rightarrow> bool" where
  "is_conversion_error e = (e = ValueError \<or> e = TypeError \<or> e = OverflowError)"

text \<open>
  The value that one pass of the loop of \<^verbatim>\<open>_get_host_netmiko_options\<close> stores under the
  stripped key \<open>new_k\<close>, or the error of \<^verbatim>\<open>int(v)\<close>; \<open>netmiko_loop_Cons\<close> below relates
  it to \<^const>\<open>netmiko_loop\<close>.
\<close>

definition netmiko_value :: "interp \<Rightarrow> string \<Rightarrow> pyval \<Rightarrow> error + pyval" where
  "netmiko_value ip new_k v =
     (if new_k \<in> set int_keys then bind_err (py_int ip v) (\<lambda>n. Inr (VInt n))
      else if new_k \<in> set bool_keys then
        (if lower (py_str ip v) \<in> set [''0'', ''false'', ''none'']
         then Inr (VBool False) else Inr (VBool True))
      else (if empty_val v then Inr VNone else Inr v))"

section \<open>Basic facts\<close>

lemma bind_err_Inl [simp]: "bind_err (Inl e) f = Inl e"
  by (simp add: bind_err_def)

lemma bind_err_Inr [simp]: "bind_err (Inr x) f = f x"
  by (simp add: bind_err_def)

lemma bind_err_eq_Inr: "bind_err m f = Inr y \<longleftrightarrow> (\<exists>x. m = Inr x \<and> f x = Inr y)"
  by (cases m) simp_all

lemma bind_err_eq_Inl:
  "bind_err m f = Inl e \<longleftrightarrow> m = Inl e \<or> (\<exists>x. m = Inr x \<and> f x = Inl e)"
  by (cases m) simp_all

lemma empty_val_cases: "empty_val v \<longleftrightarrow> v = VNone \<or> v = VFloat NaN \<or> v = VStr []"
proof (cases v)
  case (VFloat f)
  then show ?thesis
    by (cases f) (auto simp: empty_val_def is_float_def isnan_def)
qed (auto simp: empty_val_def is_float_def isnan_def)

lemma coerce_str_cases:
  "coerce_str ip x =
     (if x = VFloat NaN then VNone else if truthy x then VStr (py_str ip x) else x)"
  by (auto simp: coerce_str_def empty_val_cases)

lemma coerce_int_cases:
  "coerce_int ip x =
     (if x = VFloat NaN then Inr VNone
      else if truthy x then bind_err (py_int ip x) (\<lambda>n. Inr (VInt n)) else Inr x)"
  by (auto simp: coerce_int_def empty_val_cases)

section \<open>The emptiness predicate (C9)\<close>

text \<open>
  C9. A scalar is empty exactly when it is \<^verbatim>\<open>None\<close>, the float NaN or the empty string.
  The numbers \<^verbatim>\<open>0\<close> and \<^verbatim>\<open>0.0\<close>, \<^verbatim>\<open>False\<close> and every non-empty string made of white space
  only are not empty.
\<close>

theorem empty_val_iff:
  "(empty_val v \<longleftrightarrow> v = VNone \<or> v = VFloat NaN \<or> v = VStr [])
   \<and> \<not> empty_val (VInt 0) \<and> \<not> empty_val (VFloat (Fin 0)) \<and> \<not> empty_val (VBool False)
   \<and> (s \<noteq> [] \<and> list_all is_space s \<longrightarrow> \<not> empty_val (VStr s))"
  by (simp add: empty_val_cases)

theorem empty_val_iff_witness:
  "empty_val (VStr []) \<and> '' '' \<noteq> [] \<and> list_all is_space '' '' \<and> \<not> empty_val (VStr '' '')"
  using empty_val_iff [of "VStr []" "'' ''"] by (simp add: is_space_def)

section \<open>Identity fields of the built records (C1, C2, C7)\<close>

lemma get_inventory_element_port:
  assumes "get_inventory_element ip ty rw dflts = Inr e"
  shows "coerce_int ip (dict_get_default rw ''port'' (VInt 22)) = Inr (port e)"
  using assms unfolding get_inventory_element_def Let_def
  by (auto simp: bind_err_eq_Inr)

lemma get_defaults_port:
  assumes "get_defaults ip rw = Inr d"
  shows "port d = dict_get rw ''port''"
  using assms unfolding get_defaults_def Let_def
  by (auto simp: bind_err_eq_Inr)

text \<open>
  C1. The defaults row \<^verbatim>\<open>{"port": "22", "hostname": ""}\<close>: the \<^verbatim>\<open>Defaults\<close> record holds
  the raw cells, the string \<^verbatim>\<open>"22"\<close> as port and the empty string as hostname, not the
  integer 22 and not \<^verbatim>\<open>None\<close>.
\<close>

theorem get_defaults_keeps_raw_cells:
  "get_defaults ip [(''port'', VStr ''22''), (''hostname'', VStr [])] =
     Inr \<lparr>hostname = VStr [], port = VStr ''22'', username = VNone, password = VNone,
          platform = VNone, data = [], connection_options = []\<rparr>"
  by (simp add: get_defaults_def dict_get_def dict_get_default_def coerce_int_def
      coerce_str_def empty_val_cases parse_int_def strip_def is_int_space_def digit_val_def
      too_many_digits_def
      get_data_def no_data_fields_def get_host_netmiko_options_def netmiko_prefix_def)

text \<open>
  C2. The group row \<^verbatim>\<open>{"name": "core", "port": ""}\<close>: the empty string is false, the
  coercion statement is skipped, and the port of the built group is the empty string,
  not \<^verbatim>\<open>None\<close>.
\<close>

theorem get_inventory_element_keeps_empty_string:
  "get_inventory_element ip Group [(''name'', VStr ''core''), (''port'', VStr [])] dflts =
     Inr \<lparr>hostname = VNone, port = VStr [], username = VNone, password = VNone,
          platform = VNone, data = [], connection_options = [], element_type = Group,
          name = VStr ''core'', groups = [], defaults = dflts\<rparr>"
  by (simp add: get_inventory_element_def dict_get_def dict_get_default_def coerce_int_def
      coerce_str_def split_groups_def stored_groups_def empty_val_cases get_data_def
      no_data_fields_def
      get_host_netmiko_options_def netmiko_prefix_def)

text \<open>
  C7. When the row has no \<^verbatim>\<open>port\<close> key, a host or group that is built has port 22, and
  a \<^verbatim>\<open>Defaults\<close> record that is built has port \<^verbatim>\<open>None\<close>.
\<close>

theorem absent_port_default:
  assumes "map_of rw ''port'' = None"
  shows "(get_inventory_element ip ty rw dflts = Inr e \<longrightarrow> port e = VInt 22)
       \<and> (get_defaults ip rw = Inr d \<longrightarrow> port d = VNone)"
proof -
  have p22: "dict_get_default rw ''port'' (VInt 22) = VInt 22"
    using assms by (simp add: dict_get_default_def)
  have pn: "dict_get rw ''port'' = VNone"
    using assms by (simp add: dict_get_def dict_get_default_def)
  have "port e = VInt 22" if "get_inventory_element ip ty rw dflts = Inr e"
    using get_inventory_element_port [OF that]
    by (simp add: p22 coerce_int_def empty_val_cases)
  moreover have "port d = VNone" if "get_defaults ip rw = Inr d"
    using get_defaults_port [OF that] by (simp add: pn)
  ultimately show ?thesis by blast
qed

theorem absent_port_default_witness:
  "map_of [(''name'', VStr ''r1'')] ''port'' = None
   \<and> (\<exists>e. get_inventory_element \<lparr>float_repr = \<lambda>f. [], int_max_str_digits = 4300\<rparr> Host [(''name'', VStr ''r1'')] Defaults_init = Inr e
          \<and> port e = VInt 22)
   \<and> (\<exists>d. get_defaults \<lparr>float_repr = \<lambda>f. [], int_max_str_digits = 4300\<rparr> [(''name'', VStr ''r1'')] = Inr d \<and> port d = VNone)"
proof -
  have a: "map_of [(''name'', VStr ''r1'')] ''port'' = None" by simp
  have e: "\<exists>e. get_inventory_element \<lparr>float_repr = \<lambda>f. [], int_max_str_digits = 4300\<rparr> Host [(''name'', VStr ''r1'')] Defaults_init = Inr e"
    by (simp add: get_inventory_element_def dict_get_def dict_get_default_def coerce_int_def
      coerce_str_def split_groups_def stored_groups_def empty_val_cases get_data_def
      no_data_fields_def
      get_host_netmiko_options_def netmiko_prefix_def)
  have d: "\<exists>d. get_defaults \<lparr>float_repr = \<lambda>f. [], int_max_str_digits = 4300\<rparr> [(''name'', VStr ''r1'')] = Inr d"
    by (simp add: get_defaults_def dict_get_def dict_get_default_def coerce_int_def
      coerce_str_def empty_val_cases get_data_def no_data_fields_def
      get_host_netmiko_options_def netmiko_prefix_def)
  from e d absent_port_default [OF a] a show ?thesis by blast
qed

section \<open>Field classification (C3, C4)\<close>

text \<open>
  C3. The defaults row \<^verbatim>\<open>{"groups": "core", "site": "lab"}\<close>: \<^verbatim>\<open>_get_defaults\<close> calls
  \<^verbatim>\<open>_get_data\<close> without \<^verbatim>\<open>isDefaults\<close>, so the data of the \<^verbatim>\<open>Defaults\<close> record keeps the
  \<^verbatim>\<open>groups\<close> key, which \<^verbatim>\<open>_get_data(data, True)\<close> leaves out.
\<close>

theorem get_defaults_keeps_groups_in_data:
  "get_defaults ip [(''groups'', VStr ''core''), (''site'', VStr ''lab'')] =
     Inr \<lparr>hostname = VNone, port = VNone, username = VNone, password = VNone,
          platform = VNone, data = [(''groups'', VStr ''core''), (''site'', VStr ''lab'')],
          connection_options = []\<rparr>
   \<and> get_data [(''groups'', VStr ''core''), (''site'', VStr ''lab'')] True =
       [(''site'', VStr ''lab'')]"
  by (simp add: get_defaults_def dict_get_def dict_get_default_def coerce_int_def
      coerce_str_def empty_val_cases get_data_def no_data_fields_def
      get_host_netmiko_options_def netmiko_prefix_def)

text \<open>
  C4. The key \<^verbatim>\<open>my_netmiko_x\<close> does not begin with \<^verbatim>\<open>netmiko_\<close>, yet it is taken as a
  connection option: the test is \<^verbatim>\<open>netmiko_prefix in k\<close>, and \<^verbatim>\<open>replace\<close> removes the
  marker from the middle of the key, which lands in the extras as \<^verbatim>\<open>my_x\<close>.
\<close>

theorem netmiko_inside_key_is_extracted:
  "\<not> prefix netmiko_prefix ''my_netmiko_x''
   \<and> get_host_netmiko_options ip [(''my_netmiko_x'', VStr ''v'')] =
       Inr [(''netmiko'',
             \<lparr>co_hostname = CVal VNone, co_port = CVal VNone, co_username = CVal VNone,
              co_password = CVal VNone, co_platform = CVal VNone,
              extras = CDict [(''my_x'', VStr ''v'')]\<rparr>)]"
  by (simp add: get_host_netmiko_options_def netmiko_prefix_def str_replace.simps
      int_keys_def bool_keys_def empty_val_cases get_connection_options_def c_get_def)

section \<open>A load that succeeds\<close>

text \<open>
  One group and one host that names it: the load returns an inventory, the reference
  of the host resolved.
\<close>

lemma load_example:
  "load ip [[(''name'', VStr ''r1''), (''hostname'', VStr ''10.0.0.1''), (''groups'', VStr ''core'')]]
       [[(''name'', VStr ''core'')]] (DefaultsRow []) =
     Inr \<lparr>inv_hosts =
            [(VStr ''r1'',
              \<lparr>hostname = VStr ''10.0.0.1'', port = VInt 22, username = VNone,
               password = VNone, platform = VNone, data = [(''groups'', VStr ''core'')],
               connection_options = [], element_type = Host, name = VStr ''r1'',
               groups = [''core''], defaults = Defaults_init\<rparr>)],
          inv_groups =
            [(VStr ''core'',
              \<lparr>hostname = VNone, port = VInt 22, username = VNone, password = VNone,
               platform = VNone, data = [], connection_options = [], element_type = Group,
               name = VStr ''core'', groups = [], defaults = Defaults_init\<rparr>)],
          inv_defaults = Defaults_init\<rparr>"
  by (simp add: load_def load_defaults_def load_groups_def dict_getitem_def empty_val_cases
      get_inventory_element_def dict_get_def dict_get_default_def coerce_int_def
      coerce_str_def split_groups_def stored_groups_def get_data_def no_data_fields_def
      get_host_netmiko_options_def netmiko_prefix_def)

section \<open>Failures of the load (C5, C6, C10)\<close>

text \<open>
  C5. A group row with an empty name, \<^verbatim>\<open>groups_data=[{"name": ""}]\<close>: the load fails,
  and the message of the exception is the one of the host loop.
\<close>

theorem empty_group_name_message:
  "load ip [] [[(''name'', VStr [])]] (DefaultsRow []) =
     Inl (Exception ''HOST name must not be empty'')"
  by (simp add: load_def load_defaults_def load_groups_def dict_getitem_def empty_val_cases)

lemma insert_rows_append:
  "insert_rows ip ty dflts (pre @ rest) m =
     bind_err (insert_rows ip ty dflts pre m) (insert_rows ip ty dflts rest)"
proof (induction pre arbitrary: m)
  case Nil
  show ?case by simp
next
  case (Cons rw pre)
  show ?case
  proof (cases "dict_getitem rw ''name''")
    case (Inl e)
    then show ?thesis by simp
  next
    case (Inr nm)
    show ?thesis
    proof (cases "get_inventory_element ip ty rw dflts")
      case (Inl e)
      with Inr show ?thesis by simp
    next
      case el: (Inr e)
      with Inr Cons.IH show ?thesis by simp
    qed
  qed
qed

lemma insert_rows_no_name_step:
  assumes "map_of rw ''name'' = None"
  shows "insert_rows ip ty dflts (rw # rest) m = Inl (KeyError ''name'')"
  using assms by (simp add: dict_getitem_def)

lemma insert_rows_no_name_fails:
  assumes "rw \<in> set rows" and "map_of rw ''name'' = None"
  shows "\<exists>e. insert_rows ip ty dflts rows m = Inl e"
proof -
  from assms(1) obtain pre rest where "rows = pre @ rw # rest"
    by (auto simp: in_set_conv_decomp)
  then show ?thesis
    using insert_rows_no_name_step [OF assms(2)]
    by (cases "insert_rows ip ty dflts pre m") (simp_all add: insert_rows_append)
qed

lemma load_groups_fails:
  assumes "groups_data \<noteq> []" and "insert_rows ip Group dflts groups_data [] = Inl e"
  shows "load_groups ip dflts groups_data = Inl e"
  using assms by (simp add: load_groups_def)

lemma load_fails_groups:
  assumes "load_defaults ip dd = Inr dflts" and "load_groups ip dflts groups_data = Inl e"
  shows "load ip hosts_data groups_data dd = Inl e"
  using assms by (simp add: load_def)

lemma load_fails_hosts:
  assumes "load_defaults ip dd = Inr dflts" and "load_groups ip dflts groups_data = Inr grps"
    and "insert_rows ip Host dflts hosts_data [] = Inl e"
  shows "load ip hosts_data groups_data dd = Inl e"
  using assms by (simp add: load_def)

lemma load_fails_if_insert_fails:
  assumes "\<And>dflts. (groups_data \<noteq> [] \<and> (\<exists>e. insert_rows ip Group dflts groups_data [] = Inl e))
                  \<or> (\<exists>e. insert_rows ip Host dflts hosts_data [] = Inl e)"
  shows "\<exists>e. load ip hosts_data groups_data dd = Inl e"
proof (cases "load_defaults ip dd")
  case (Inl e)
  then show ?thesis by (simp add: load_def)
next
  case d: (Inr dflts)
  show ?thesis
  proof (cases "load_groups ip dflts groups_data")
    case (Inl e)
    with d show ?thesis by (simp add: load_def)
  next
    case g: (Inr grps)
    from assms [of dflts] show ?thesis
    proof
      assume "groups_data \<noteq> [] \<and> (\<exists>e. insert_rows ip Group dflts groups_data [] = Inl e)"
      with g show ?thesis by (auto simp: load_groups_def)
    next
      assume "\<exists>e. insert_rows ip Host dflts hosts_data [] = Inl e"
      with d g show ?thesis by (auto simp: load_def)
    qed
  qed
qed

text \<open>
  C10. A group or host row without a \<^verbatim>\<open>name\<close> key: the loop body fails with
  \<^verbatim>\<open>KeyError('name')\<close> whatever the other cells hold, that is before the emptiness test
  and before the record is built. When the rows before it were inserted, this is the
  error of the load; in every case the load returns no inventory.
\<close>

theorem missing_name_key:
  assumes "map_of rw ''name'' = None"
  shows "insert_rows ip ty dflts (rw # rest) m = Inl (KeyError ''name'')
     \<and> (load_defaults ip dd = Inr dflts \<and> insert_rows ip Group dflts pre [] = Inr m
          \<longrightarrow> load ip hosts_data (pre @ rw # rest) dd = Inl (KeyError ''name''))
     \<and> (load_defaults ip dd = Inr dflts \<and> load_groups ip dflts groups_data = Inr grps
          \<and> insert_rows ip Host dflts pre [] = Inr m
          \<longrightarrow> load ip (pre @ rw # rest) groups_data dd = Inl (KeyError ''name''))
     \<and> (rw \<in> set groups_data \<or> rw \<in> set hosts_data
          \<longrightarrow> (\<exists>e. load ip hosts_data groups_data dd = Inl e))"
proof -
  note step = insert_rows_no_name_step [OF assms]
  have a: "insert_rows ip ty dflts (rw # rest) m = Inl (KeyError ''name'')"
    by (rule step)
  have b: "load ip hosts_data (pre @ rw # rest) dd = Inl (KeyError ''name'')"
    if "load_defaults ip dd = Inr dflts" "insert_rows ip Group dflts pre [] = Inr m"
  proof -
    have "insert_rows ip Group dflts (pre @ rw # rest) [] = Inl (KeyError ''name'')"
      using that(2) step by (simp add: insert_rows_append)
    then have "load_groups ip dflts (pre @ rw # rest) = Inl (KeyError ''name'')"
      by (simp add: load_groups_def)
    with that(1) show ?thesis by (rule load_fails_groups)
  qed
  have c: "load ip (pre @ rw # rest) groups_data dd = Inl (KeyError ''name'')"
    if "load_defaults ip dd = Inr dflts" "load_groups ip dflts groups_data = Inr grps"
      "insert_rows ip Host dflts pre [] = Inr m"
  proof -
    have "insert_rows ip Host dflts (pre @ rw # rest) [] = Inl (KeyError ''name'')"
      using that(3) step by (simp add: insert_rows_append)
    with that(1,2) show ?thesis by (rule load_fails_hosts)
  qed
  have d: "\<exists>e. load ip hosts_data groups_data dd = Inl e"
    if "rw \<in> set groups_data \<or> rw \<in> set hosts_data"
  proof (rule load_fails_if_insert_fails)
    fix d'
    from that show "(groups_data \<noteq> [] \<and> (\<exists>e. insert_rows ip Group d' groups_data [] = Inl e))
                  \<or> (\<exists>e. insert_rows ip Host d' hosts_data [] = Inl e)"
      using insert_rows_no_name_fails [OF _ assms] by (metis empty_iff empty_set)
  qed
  from a b c d show ?thesis by blast
qed

theorem missing_name_key_witness:
  "map_of [(''hostname'', VStr ''10.0.0.1'')] ''name'' = None
   \<and> load \<lparr>float_repr = \<lambda>f. [], int_max_str_digits = 4300\<rparr> [] [[(''name'', VStr ''core'')], [(''hostname'', VStr ''10.0.0.1'')]]
        (DefaultsRow []) = Inl (KeyError ''name'')
   \<and> load \<lparr>float_repr = \<lambda>f. [], int_max_str_digits = 4300\<rparr> [[(''name'', VStr ''r1'')], [(''hostname'', VStr ''10.0.0.1'')]] []
        (DefaultsRow []) = Inl (KeyError ''name'')"
proof -
  let ?rw = "[(''hostname'', VStr ''10.0.0.1'')]"
  let ?ip = "\<lparr>float_repr = \<lambda>f. [], int_max_str_digits = 4300\<rparr>"
  have a: "map_of ?rw ''name'' = None" by simp
  have d: "load_defaults ?ip (DefaultsRow []) = Inr Defaults_init"
    by (simp add: load_defaults_def)
  have g: "\<exists>m. insert_rows ?ip Group Defaults_init [[(''name'', VStr ''core'')]] [] = Inr m"
    by (simp add: dict_getitem_def empty_val_cases get_inventory_element_def dict_get_def
        dict_get_default_def coerce_int_def coerce_str_def split_groups_def
        stored_groups_def get_data_def
        no_data_fields_def get_host_netmiko_options_def netmiko_prefix_def)
  have h: "\<exists>m. insert_rows ?ip Host Defaults_init [[(''name'', VStr ''r1'')]] [] = Inr m"
    by (simp add: dict_getitem_def empty_val_cases get_inventory_element_def dict_get_def
        dict_get_default_def coerce_int_def coerce_str_def split_groups_def
        stored_groups_def get_data_def
        no_data_fields_def get_host_netmiko_options_def netmiko_prefix_def)
  have lg: "load_groups ?ip Defaults_init [] = Inr []"
    by (simp add: load_groups_def)
  from g obtain gm where gm: "insert_rows ?ip Group Defaults_init [[(''name'', VStr ''core'')]] [] = Inr gm" ..
  from h obtain hm where hm: "insert_rows ?ip Host Defaults_init [[(''name'', VStr ''r1'')]] [] = Inr hm" ..
  from missing_name_key [OF a, of ?ip _ Defaults_init "[]" gm "DefaultsRow []" "[[(''name'', VStr ''core'')]]" "[]"] d gm
  have 1: "load ?ip [] ([[(''name'', VStr ''core'')]] @ ?rw # []) (DefaultsRow []) = Inl (KeyError ''name'')"
    by blast
  from missing_name_key [OF a, of ?ip _ Defaults_init "[]" hm "DefaultsRow []" "[[(''name'', VStr ''r1'')]]" _ "[]" "[]"] d hm lg
  have 2: "load ?ip ([[(''name'', VStr ''r1'')]] @ ?rw # []) [] (DefaultsRow []) = Inl (KeyError ''name'')"
    by blast
  from a 1 2 show ?thesis by simp
qed










section \<open>Integer connection options (C8)\<close>

lemma py_int_err: "py_int ip v = Inl e \<Longrightarrow> is_conversion_error e"
proof (cases v)
  case (VFloat f)
  assume "py_int ip v = Inl e"
  with VFloat show ?thesis
    by (cases f) (auto simp: is_conversion_error_def)
qed (auto simp: is_conversion_error_def split: option.splits if_splits)

text \<open>
  What \<^verbatim>\<open>int\<close> reads from a string: white space at the ends is stripped, but not the
  separators 28 to 31; and a string with more digits than the limit is refused.
\<close>

lemma py_int_strips_white_space:
  "py_int ip (VStr [CHR 0xA0, CHR ''3'', CHR ''0'', CHR 0x0A]) = Inr 30"
  by (simp add: parse_int_def strip_def is_int_space_def digit_val_def too_many_digits_def)

lemma py_int_keeps_separators:
  "py_int ip (VStr [CHR 0x1C, CHR ''3'', CHR ''0'']) = Inl ValueError
   \<and> py_int ip (VStr [CHR ''2'', CHR ''2'', CHR 0x1F]) = Inl ValueError"
  by (simp add: parse_int_def strip_def is_int_space_def digit_val_def)

lemma py_int_digit_limit:
  "int_max_str_digits ip = 4300 \<Longrightarrow>
     py_int ip (VStr (replicate 5000 CHR ''9'')) = Inl ValueError"
  by (simp add: too_many_digits_def digit_val_def split: option.splits)

lemma netmiko_value_err: "netmiko_value ip new_k v = Inl e \<Longrightarrow> is_conversion_error e"
  by (cases "py_int ip v") (auto simp: netmiko_value_def py_int_err split: if_splits)

lemma netmiko_loop_Cons:
  "netmiko_loop ip ((k, v) # items) acc =
     (if str_contains netmiko_prefix k
      then bind_err (netmiko_value ip (str_replace netmiko_prefix [] k) v)
             (\<lambda>x. netmiko_loop ip items (AList.update (str_replace netmiko_prefix [] k) x acc))
      else netmiko_loop ip items acc)"
  by (cases "py_int ip v") (simp_all add: netmiko_value_def Let_def)

lemma netmiko_loop_err:
  "netmiko_loop ip rw acc = Inl e \<Longrightarrow> is_conversion_error e"
proof (induction rw arbitrary: acc)
  case Nil
  then show ?case by simp
next
  case (Cons p rw)
  obtain k v where p: "p = (k, v)" by (cases p)
  show ?case
  proof (cases "str_contains netmiko_prefix k")
    case False
    with Cons.prems p have "netmiko_loop ip rw acc = Inl e"
      by (simp add: netmiko_loop_Cons del: netmiko_loop.simps(2))
    then show ?thesis by (rule Cons.IH)
  next
    case True
    show ?thesis
    proof (cases "netmiko_value ip (str_replace netmiko_prefix [] k) v")
      case (Inl x)
      with Cons.prems p True have "x = e"
        by (simp add: netmiko_loop_Cons del: netmiko_loop.simps(2))
      with Inl show ?thesis by (auto dest: netmiko_value_err)
    next
      case (Inr x)
      with Cons.prems p True
      have "netmiko_loop ip rw (AList.update (str_replace netmiko_prefix [] k) x acc) = Inl e"
        by (simp add: netmiko_loop_Cons del: netmiko_loop.simps(2))
      then show ?thesis by (rule Cons.IH)
    qed
  qed
qed

lemma netmiko_loop_bad_int:
  assumes "(k, v) \<in> set rw" and "str_contains netmiko_prefix k"
    and "str_replace netmiko_prefix [] k \<in> set int_keys" and "py_int ip v = Inl e0"
  shows "\<exists>e. netmiko_loop ip rw acc = Inl e"
  using assms(1)
proof (induction rw arbitrary: acc)
  case Nil
  then show ?case by simp
next
  case (Cons p rw)
  obtain k' v' where p: "p = (k', v')" by (cases p)
  show ?case
  proof (cases "p = (k, v)")
    case True
    with assms(2-4) show ?thesis
      by (simp add: netmiko_loop_Cons netmiko_value_def del: netmiko_loop.simps(2))
  next
    case False
    with Cons.prems have "(k, v) \<in> set rw" by auto
    from Cons.IH [OF this] have ih: "\<exists>e. netmiko_loop ip rw acc' = Inl e" for acc' .
    show ?thesis
    proof (cases "netmiko_value ip (str_replace netmiko_prefix [] k') v'")
      case (Inl x)
      with p ih show ?thesis
        by (simp add: netmiko_loop_Cons del: netmiko_loop.simps(2))
    next
      case (Inr x)
      with p ih show ?thesis
        by (simp add: netmiko_loop_Cons del: netmiko_loop.simps(2))
    qed
  qed
qed

lemma netmiko_loop_other_keys:
  assumes "\<forall>p\<in>set rw. str_contains netmiko_prefix (fst p)
             \<longrightarrow> str_replace netmiko_prefix [] (fst p) \<noteq> x"
    and "netmiko_loop ip rw acc = Inr opts"
  shows "map_of opts x = map_of acc x"
  using assms
proof (induction rw arbitrary: acc)
  case Nil
  then show ?case by simp
next
  case (Cons p rw)
  obtain k v where p: "p = (k, v)" by (cases p)
  from Cons.prems(1) have rest: "\<forall>p\<in>set rw. str_contains netmiko_prefix (fst p)
             \<longrightarrow> str_replace netmiko_prefix [] (fst p) \<noteq> x" by simp
  show ?case
  proof (cases "str_contains netmiko_prefix k")
    case False
    with Cons.prems(2) p have "netmiko_loop ip rw acc = Inr opts"
      by (simp add: netmiko_loop_Cons del: netmiko_loop.simps(2))
    from Cons.IH [OF rest this] show ?thesis .
  next
    case True
    with Cons.prems(1) p have ne: "str_replace netmiko_prefix [] k \<noteq> x" by simp
    from Cons.prems(2) p True obtain y where
      y: "netmiko_loop ip rw (AList.update (str_replace netmiko_prefix [] k) y acc) = Inr opts"
      by (auto simp: netmiko_loop_Cons bind_err_eq_Inr simp del: netmiko_loop.simps(2))
    from Cons.IH [OF rest y] ne show ?thesis
      by (simp add: update_conv')
  qed
qed

lemma netmiko_loop_int_key:
  assumes "(k, v) \<in> set rw" and "str_contains netmiko_prefix k"
    and "str_replace netmiko_prefix [] k \<in> set int_keys" and "py_int ip v = Inr n"
    and "\<forall>p\<in>set rw. str_contains netmiko_prefix (fst p)
           \<and> str_replace netmiko_prefix [] (fst p) = str_replace netmiko_prefix [] k
           \<longrightarrow> p = (k, v)"
    and "netmiko_loop ip rw acc = Inr opts"
  shows "map_of opts (str_replace netmiko_prefix [] k) = Some (VInt n)"
  using assms(1,5,6)
proof (induction rw arbitrary: acc)
  case Nil
  then show ?case by simp
next
  case (Cons p rw)
  obtain k' v' where p: "p = (k', v')" by (cases p)
  let ?x = "str_replace netmiko_prefix [] k"
  from Cons.prems(2) have rest: "\<forall>p\<in>set rw. str_contains netmiko_prefix (fst p)
           \<and> str_replace netmiko_prefix [] (fst p) = ?x \<longrightarrow> p = (k, v)" by simp
  show ?case
  proof (cases "(k, v) \<in> set rw")
    case True
    show ?thesis
    proof (cases "str_contains netmiko_prefix k'")
      case False
      with Cons.prems(3) p have "netmiko_loop ip rw acc = Inr opts"
        by (simp add: netmiko_loop_Cons del: netmiko_loop.simps(2))
      from Cons.IH [OF True rest this] show ?thesis .
    next
      case c: True
      from Cons.prems(3) p c obtain y where
        y: "netmiko_loop ip rw (AList.update (str_replace netmiko_prefix [] k') y acc) = Inr opts"
        by (auto simp: netmiko_loop_Cons bind_err_eq_Inr simp del: netmiko_loop.simps(2))
      from Cons.IH [OF True rest y] show ?thesis .
    qed
  next
    case False
    with Cons.prems(1) p have kv: "k' = k" "v' = v" by auto
    from False rest have other: "\<forall>p\<in>set rw. str_contains netmiko_prefix (fst p)
             \<longrightarrow> str_replace netmiko_prefix [] (fst p) \<noteq> ?x" by auto
    from Cons.prems(3) p kv assms(2-4)
    have "netmiko_loop ip rw (AList.update ?x (VInt n) acc) = Inr opts"
      by (simp add: netmiko_loop_Cons netmiko_value_def del: netmiko_loop.simps(2))
    from netmiko_loop_other_keys [OF other this] show ?thesis
      by (simp add: update_conv')
  qed
qed

lemma prefix_str_contains: "prefix sub s \<Longrightarrow> str_contains sub s"
  by (cases s) simp_all

lemma get_host_netmiko_options_err:
  "get_host_netmiko_options ip rw = Inl e \<Longrightarrow> is_conversion_error e"
  by (cases "netmiko_loop ip rw []")
    (auto simp: get_host_netmiko_options_def dest: netmiko_loop_err split: if_splits)

lemma coerce_int_err: "coerce_int ip x = Inl e \<Longrightarrow> is_conversion_error e"
  by (cases "py_int ip x") (auto simp: coerce_int_def dest: py_int_err split: if_splits)

lemma split_groups_err: "split_groups x = Inl e \<Longrightarrow> e = AttributeError"
  by (auto simp: split_groups_def split: if_splits pyval.splits)

lemma get_inventory_element_options_fail:
  assumes "get_host_netmiko_options ip rw = Inl e0"
  shows "\<exists>e. get_inventory_element ip ty rw dflts = Inl e
            \<and> (is_conversion_error e \<or> e = AttributeError)"
proof (cases "coerce_int ip (dict_get_default rw ''port'' (VInt 22))")
  case (Inl e)
  then show ?thesis
    by (auto simp: get_inventory_element_def Let_def dest: coerce_int_err)
next
  case p: (Inr p)
  show ?thesis
  proof (cases "split_groups (dict_get rw ''groups'')")
    case (Inl e)
    with p show ?thesis
      by (auto simp: get_inventory_element_def Let_def dest: split_groups_err)
  next
    case (Inr gs)
    with p assms get_host_netmiko_options_err [OF assms] show ?thesis
      by (simp add: get_inventory_element_def Let_def)
  qed
qed

lemma get_defaults_options_fail:
  assumes "get_host_netmiko_options ip rw = Inl e0"
  shows "\<exists>e. get_defaults ip rw = Inl e \<and> is_conversion_error e"
proof (cases "coerce_int ip (dict_get rw ''port'')")
  case (Inl e)
  then show ?thesis
    by (auto simp: get_defaults_def Let_def dest: coerce_int_err)
next
  case (Inr p)
  with assms get_host_netmiko_options_err [OF assms] show ?thesis
    by (simp add: get_defaults_def Let_def)
qed

lemma insert_rows_step_fails:
  assumes "get_inventory_element ip ty rw dflts = Inl e0"
  shows "\<exists>e. insert_rows ip ty dflts (rw # rest) m = Inl e"
  using assms by (cases "dict_getitem rw ''name''") simp_all

lemma insert_rows_element_fails:
  assumes "rw \<in> set rows" and "get_inventory_element ip ty rw dflts = Inl e0"
  shows "\<exists>e. insert_rows ip ty dflts rows m = Inl e"
proof -
  from assms(1) obtain pre rest where "rows = pre @ rw # rest"
    by (auto simp: in_set_conv_decomp)
  then show ?thesis
    using insert_rows_step_fails [OF assms(2)]
    by (cases "insert_rows ip ty dflts pre m") (simp_all add: insert_rows_append)
qed


text \<open>
  C8. A field \<open>(k, v)\<close> of a row whose key begins with \<^verbatim>\<open>netmiko_\<close> and strips to one of
  the integer keys. If \<^verbatim>\<open>int(v)\<close> fails, \<^verbatim>\<open>_get_host_netmiko_options\<close> fails with a
  conversion error, both record builders fail on that row, and a load that has the row
  among its hosts, its groups or as its defaults returns no inventory. If \<^verbatim>\<open>int(v)\<close> is
  \<open>n\<close>, no other field of the row strips to the same key and the builder returns, then
  the result is the single entry \<^verbatim>\<open>netmiko\<close> whose extras hold the integer \<open>n\<close> under the
  stripped key.
\<close>

theorem integer_option_conversion:
  assumes "(k, v) \<in> set rw" and "prefix netmiko_prefix k"
    and "str_replace netmiko_prefix [] k \<in> set int_keys"
  shows "(py_int ip v = Inl e0 \<longrightarrow>
            (\<exists>e. get_host_netmiko_options ip rw = Inl e \<and> is_conversion_error e)
          \<and> (\<exists>e. get_inventory_element ip ty rw dflts = Inl e
                  \<and> (is_conversion_error e \<or> e = AttributeError))
          \<and> (\<exists>e. get_defaults ip rw = Inl e \<and> is_conversion_error e)
          \<and> (rw \<in> set hosts_data \<or> rw \<in> set groups_data \<or> dd = DefaultsRow rw
               \<longrightarrow> (\<exists>e. load ip hosts_data groups_data dd = Inl e)))
       \<and> (py_int ip v = Inr n
            \<and> (\<forall>p\<in>set rw. str_contains netmiko_prefix (fst p)
                  \<and> str_replace netmiko_prefix [] (fst p) = str_replace netmiko_prefix [] k
                  \<longrightarrow> p = (k, v))
            \<and> get_host_netmiko_options ip rw = Inr co
          \<longrightarrow> (\<exists>c opts. co = [(''netmiko'', c)] \<and> extras c = CDict opts
                  \<and> map_of opts (str_replace netmiko_prefix [] k) = Some (VInt n)))"
proof (intro conjI impI)
  note c = prefix_str_contains [OF assms(2)]
  {
    assume bad: "py_int ip v = Inl e0"
    from netmiko_loop_bad_int [OF assms(1) c assms(3) bad]
    obtain e where e: "netmiko_loop ip rw [] = Inl e" by blast
    then have opts: "get_host_netmiko_options ip rw = Inl e"
      by (simp add: get_host_netmiko_options_def)
    with netmiko_loop_err [OF e]
    show "\<exists>e. get_host_netmiko_options ip rw = Inl e \<and> is_conversion_error e" by blast
    show "\<exists>e. get_inventory_element ip ty rw dflts = Inl e
                  \<and> (is_conversion_error e \<or> e = AttributeError)"
      by (rule get_inventory_element_options_fail [OF opts])
    show "\<exists>e. get_defaults ip rw = Inl e \<and> is_conversion_error e"
      by (rule get_defaults_options_fail [OF opts])
    assume where_: "rw \<in> set hosts_data \<or> rw \<in> set groups_data \<or> dd = DefaultsRow rw"
    have el: "\<exists>e. get_inventory_element ip ty' rw d' = Inl e" for ty' d'
      using get_inventory_element_options_fail [OF opts] by blast
    show "\<exists>e. load ip hosts_data groups_data dd = Inl e"
    proof (cases "dd = DefaultsRow rw")
      case True
      from assms(1) have "rw \<noteq> []" by auto
      with True get_defaults_options_fail [OF opts] show ?thesis
        by (auto simp: load_def load_defaults_def)
    next
      case False
      with where_ have w: "rw \<in> set groups_data \<or> rw \<in> set hosts_data" by blast
      show ?thesis
      proof (rule load_fails_if_insert_fails)
        fix d'
        from w show "(groups_data \<noteq> [] \<and> (\<exists>e. insert_rows ip Group d' groups_data [] = Inl e))
                  \<or> (\<exists>e. insert_rows ip Host d' hosts_data [] = Inl e)"
        proof
          assume g: "rw \<in> set groups_data"
          from el [of Group d'] obtain x where "get_inventory_element ip Group rw d' = Inl x" ..
          from insert_rows_element_fails [OF g this] g show ?thesis by auto
        next
          assume h: "rw \<in> set hosts_data"
          from el [of Host d'] obtain x where "get_inventory_element ip Host rw d' = Inl x" ..
          from insert_rows_element_fails [OF h this] show ?thesis by auto
        qed
      qed
    qed
  }
  {
    assume ok: "py_int ip v = Inr n
            \<and> (\<forall>p\<in>set rw. str_contains netmiko_prefix (fst p)
                  \<and> str_replace netmiko_prefix [] (fst p) = str_replace netmiko_prefix [] k
                  \<longrightarrow> p = (k, v))
            \<and> get_host_netmiko_options ip rw = Inr co"
    then obtain opts where loop: "netmiko_loop ip rw [] = Inr opts"
      by (cases "netmiko_loop ip rw []") (auto simp: get_host_netmiko_options_def)
    from ok have n: "py_int ip v = Inr n" and uniq: "\<forall>p\<in>set rw. str_contains netmiko_prefix (fst p)
                  \<and> str_replace netmiko_prefix [] (fst p) = str_replace netmiko_prefix [] k
                  \<longrightarrow> p = (k, v)" by blast+
    from netmiko_loop_int_key [OF assms(1) c assms(3) n uniq loop]
    have m: "map_of opts (str_replace netmiko_prefix [] k) = Some (VInt n)" .
    then have "opts \<noteq> []" by auto
    with ok loop have "co = get_connection_options [(''netmiko'', [(''extras'', CDict opts)])]"
      by (simp add: get_host_netmiko_options_def)
    with m show "\<exists>c opts. co = [(''netmiko'', c)] \<and> extras c = CDict opts
                  \<and> map_of opts (str_replace netmiko_prefix [] k) = Some (VInt n)"
      by (simp add: get_connection_options_def c_get_def)
  }
qed

theorem integer_option_conversion_witness:
  "(\<exists>e. get_host_netmiko_options \<lparr>float_repr = \<lambda>f. [], int_max_str_digits = 4300\<rparr>
          [(''name'', VStr ''r1''), (''netmiko_timeout'', VStr ''abc'')] = Inl e
        \<and> is_conversion_error e)
   \<and> (\<exists>e. load \<lparr>float_repr = \<lambda>f. [], int_max_str_digits = 4300\<rparr> [[(''name'', VStr ''r1''), (''netmiko_timeout'', VStr ''abc'')]] []
            (DefaultsRow []) = Inl e)
   \<and> (\<exists>c opts. get_host_netmiko_options \<lparr>float_repr = \<lambda>f. [], int_max_str_digits = 4300\<rparr> [(''netmiko_timeout'', VStr ''30'')]
                 = Inr [(''netmiko'', c)]
        \<and> extras c = CDict opts \<and> map_of opts ''timeout'' = Some (VInt 30))"
proof -
  let ?ip = "\<lparr>float_repr = \<lambda>f. [], int_max_str_digits = 4300\<rparr>"
  let ?bad = "[(''name'', VStr ''r1''), (''netmiko_timeout'', VStr ''abc'')]"
  let ?ok = "[(''netmiko_timeout'', VStr ''30'')]"
  have pre: "prefix netmiko_prefix ''netmiko_timeout''"
    by (simp add: netmiko_prefix_def)
  have key: "str_replace netmiko_prefix [] ''netmiko_timeout'' = ''timeout''"
    by (simp add: netmiko_prefix_def str_replace.simps)
  have ik: "str_replace netmiko_prefix [] ''netmiko_timeout'' \<in> set int_keys"
    by (simp add: key int_keys_def)
  have b1: "(''netmiko_timeout'', VStr ''abc'') \<in> set ?bad" by simp
  have b2: "py_int ?ip (VStr ''abc'') = Inl ValueError"
    by (simp add: parse_int_def strip_def is_int_space_def digit_val_def
      too_many_digits_def)
  have o1: "(''netmiko_timeout'', VStr ''30'') \<in> set ?ok" by simp
  have o2: "py_int ?ip (VStr ''30'') = Inr 30"
    by (simp add: parse_int_def strip_def is_int_space_def digit_val_def
      too_many_digits_def)
  have o3: "\<forall>p\<in>set ?ok. str_contains netmiko_prefix (fst p)
                  \<and> str_replace netmiko_prefix [] (fst p)
                    = str_replace netmiko_prefix [] ''netmiko_timeout''
                  \<longrightarrow> p = (''netmiko_timeout'', VStr ''30'')"
    by simp
  have o4: "\<exists>co. get_host_netmiko_options ?ip ?ok = Inr co"
    by (simp add: get_host_netmiko_options_def netmiko_prefix_def str_replace.simps
        int_keys_def parse_int_def strip_def is_int_space_def digit_val_def
      too_many_digits_def)
  then obtain co where co: "get_host_netmiko_options ?ip ?ok = Inr co" ..
  have 1: "(\<exists>e. get_host_netmiko_options ?ip ?bad = Inl e \<and> is_conversion_error e)
         \<and> (\<exists>e. load ?ip [?bad] [] (DefaultsRow []) = Inl e)"
    using integer_option_conversion [OF b1 pre ik, where ?e0.0 = ValueError and ip = ?ip
        and hosts_data = "[?bad]" and groups_data = "[]" and dd = "DefaultsRow []"] b2
    by simp
  have 2: "\<exists>c opts. co = [(''netmiko'', c)] \<and> extras c = CDict opts
                  \<and> map_of opts ''timeout'' = Some (VInt 30)"
    using integer_option_conversion [OF o1 pre ik, where n = 30 and ip = ?ip and co = co]
      o2 o3 co unfolding key
    by blast
  from 1 2 co show ?thesis by auto
qed


end
